theory Spec2Isabelle
  imports Complex_Main
begin

section \<open>Data model\<close>

text \<open>
  Identifiers are the store's uuid strings. An instant is a number of milliseconds since
  the epoch, as a JavaScript \<^verbatim>\<open>Date\<close> holds it; only valid dates are modelled. An
  ISO-8601 string, as \<^verbatim>\<open>toISOString\<close> writes it and \<^verbatim>\<open>new Date(s)\<close> reads it,
  is represented by the instant it denotes: it is never the empty string, so it is truthy.
  JavaScript numbers are modelled as rationals (stock counts and scores as integers);
  rounding of floating point arithmetic is outside the model. A field that may be
  \<^verbatim>\<open>undefined\<close> or \<^verbatim>\<open>null\<close> is an \<open>option\<close>.
\<close>

type_synonym uuid = string
type_synonym timestamp = int

datatype iso_string = Iso timestamp

fun newDate :: "iso_string \<Rightarrow> timestamp" where
  "newDate (Iso t) = t"

definition toISOString :: "timestamp \<Rightarrow> iso_string" where
  "toISOString t = Iso t"

datatype ReservationStatus = Available | Pending | Sold | Expired

datatype BidStatus = BidOpen | BidAccepted | BidRejected | BidExpired

text \<open>A row of table \<^verbatim>\<open>reservations\<close>; \<open>r_users\<close> is the joined seller
  (\<^verbatim>\<open>users:seller_id (name)\<close>), present only in the rows a select with that join returns.\<close>

record db_reservation =
  r_id :: "uuid option"
  r_restaurant_name :: "string option"
  r_location :: "string option"
  r_cuisine :: "string option"
  r_date :: "iso_string option"
  r_time :: "string option"
  r_party_size :: "int option"
  r_price :: "rat option"
  r_original_price :: "rat option"
  r_seller_id :: "uuid option"
  r_status :: "ReservationStatus option"
  r_description :: "string option"
  r_image_url :: "string option"
  r_popularity :: "int option"
  r_allow_bidding :: "bool option"
  r_minimum_bid :: "rat option"
  r_current_bid :: "rat option"
  r_bid_end_time :: "iso_string option"
  r_stock_remaining :: "int option"
  r_last_sale_price :: "rat option"
  r_last_sale_date :: "iso_string option"
  r_latitude :: "rat option"
  r_longitude :: "rat option"
  r_users :: "string option option"

section \<open>The bid expiration trigger\<close>

text \<open>\<^verbatim>\<open>handle_bid_expiration\<close> (migration rough\_moon), run by the store before every
  update of a row of \<^verbatim>\<open>reservations\<close>, on the new row. A comparison with a NULL column
  is not true.\<close>

definition bid_has_ended :: "timestamp \<Rightarrow> db_reservation \<Rightarrow> bool" where
  "bid_has_ended now new =
     ((case r_bid_end_time new of None \<Rightarrow> False | Some e \<Rightarrow> newDate e < now)
      \<and> r_status new = Some Available
      \<and> r_allow_bidding new = Some True)"

definition handle_bid_expiration :: "timestamp \<Rightarrow> db_reservation \<Rightarrow> db_reservation" where
  "handle_bid_expiration now new =
     (if bid_has_ended now new then
        (if r_current_bid new \<noteq> None then new\<lparr>r_status := Some Pending\<rparr>
         else new\<lparr>r_status := Some Expired\<rparr>)
      else new)"


section \<open>The client's view of a listing\<close>

text \<open>Interface \<^verbatim>\<open>Reservation\<close> of the reservation context, every field optional as in
  \<^verbatim>\<open>Partial<Reservation>\<close>. The mock \<^verbatim>\<open>marketData\<close> (random), \<^verbatim>\<open>bidHistory\<close> and
  \<^verbatim>\<open>saleHistory\<close> are display data and left out.\<close>

record Reservation =
  rid :: "uuid option"
  restaurantName :: "string option"
  location :: "string option"
  cuisine :: "string option"
  date :: "timestamp option"
  time :: "string option"
  partySize :: "int option"
  price :: "rat option"
  originalPrice :: "rat option"
  sellerId :: "uuid option"
  sellerName :: "string option"
  status :: "ReservationStatus option"
  description :: "string option"
  imageUrl :: "string option"
  popularity :: "int option"
  currentBid :: "rat option"
  minimumBid :: "rat option"
  allowBidding :: "bool option"
  bidEndTime :: "timestamp option"
  stockRemaining :: "int option"
  lastSalePrice :: "rat option"
  lastSaleDate :: "timestamp option"
  latitude :: "rat option"
  longitude :: "rat option"

text \<open>\<^verbatim>\<open>dbReservation.users?.name || 'Unknown Seller'\<close>\<close>

definition seller_name_or_unknown :: "string option option \<Rightarrow> string" where
  "seller_name_or_unknown users =
     (case users of
        None \<Rightarrow> ''Unknown Seller''
      | Some None \<Rightarrow> ''Unknown Seller''
      | Some (Some n) \<Rightarrow> (if n = [] then ''Unknown Seller'' else n))"

text \<open>\<^verbatim>\<open>formatReservationFromDB\<close>. A missing \<^verbatim>\<open>date\<close> column, for which the source
  builds an invalid date, is modelled as an absent date.\<close>

definition formatReservationFromDB :: "db_reservation \<Rightarrow> Reservation" where
  "formatReservationFromDB dbReservation =
     \<lparr> rid = r_id dbReservation,
       restaurantName = r_restaurant_name dbReservation,
       location = r_location dbReservation,
       cuisine = r_cuisine dbReservation,
       date = map_option newDate (r_date dbReservation),
       time = r_time dbReservation,
       partySize = r_party_size dbReservation,
       price = r_price dbReservation,
       originalPrice = r_original_price dbReservation,
       sellerId = r_seller_id dbReservation,
       sellerName = Some (seller_name_or_unknown (r_users dbReservation)),
       status = r_status dbReservation,
       description = r_description dbReservation,
       imageUrl = r_image_url dbReservation,
       popularity = r_popularity dbReservation,
       currentBid = r_current_bid dbReservation,
       minimumBid = r_minimum_bid dbReservation,
       allowBidding = r_allow_bidding dbReservation,
       bidEndTime = (case r_bid_end_time dbReservation of None \<Rightarrow> None | Some s \<Rightarrow> Some (newDate s)),
       stockRemaining = r_stock_remaining dbReservation,
       lastSalePrice = r_last_sale_price dbReservation,
       lastSaleDate = (case r_last_sale_date dbReservation of None \<Rightarrow> None | Some s \<Rightarrow> Some (newDate s)),
       latitude = r_latitude dbReservation,
       longitude = r_longitude dbReservation \<rparr>"

text \<open>\<^verbatim>\<open>formatReservationToDB\<close>: a column is written exactly when the field is not
  \<^verbatim>\<open>undefined\<close>; \<^verbatim>\<open>id\<close> and the seller's name are never written.\<close>

definition formatReservationToDB :: "Reservation \<Rightarrow> db_reservation" where
  "formatReservationToDB reservation =
     \<lparr> r_id = None,
       r_restaurant_name = restaurantName reservation,
       r_location = location reservation,
       r_cuisine = cuisine reservation,
       r_date = map_option toISOString (date reservation),
       r_time = time reservation,
       r_party_size = partySize reservation,
       r_price = price reservation,
       r_original_price = originalPrice reservation,
       r_seller_id = sellerId reservation,
       r_status = status reservation,
       r_description = description reservation,
       r_image_url = imageUrl reservation,
       r_popularity = popularity reservation,
       r_allow_bidding = allowBidding reservation,
       r_minimum_bid = minimumBid reservation,
       r_current_bid = currentBid reservation,
       r_bid_end_time = map_option toISOString (bidEndTime reservation),
       r_stock_remaining = stockRemaining reservation,
       r_last_sale_price = lastSalePrice reservation,
       r_last_sale_date = map_option toISOString (lastSaleDate reservation),
       r_latitude = latitude reservation,
       r_longitude = longitude reservation,
       r_users = None \<rparr>"

section \<open>The store\<close>

text \<open>
  The tables the operations touch, each a list of rows in insertion order. The rows of
  \<^verbatim>\<open>reservation_history\<close> and \<^verbatim>\<open>rate_limits\<close> are never addressed by identifier, and
  their generated identifiers are left out. A column that an insert does not name holds
  the table's default, which the sources do not give: it is \<open>None\<close> here.
\<close>

record db_bid =
  b_id :: uuid
  b_created_at :: iso_string
  b_reservation_id :: uuid
  b_user_id :: uuid
  b_amount :: rat
  b_expires_at :: "iso_string option"
  b_status :: "BidStatus option"

record db_history =
  h_created_at :: iso_string
  h_reservation_id :: uuid
  h_buyer_id :: "uuid option"
  h_buyer_name :: "string option"
  h_price :: "rat option"

record db_rate_limit =
  rl_user_id :: uuid
  rl_action_type :: string
  rl_created_at :: iso_string
  rl_expires_at :: iso_string

record db_user =
  u_id :: uuid
  u_name :: "string option"

record store =
  reservations_tbl :: "db_reservation list"
  bids_tbl :: "db_bid list"
  reservation_history_tbl :: "db_history list"
  rate_limits_tbl :: "db_rate_limit list"
  users_tbl :: "db_user list"

datatype db_error = RATELIMIT

subsection \<open>Rate limiting (migration divine\_temple)\<close>

definition rate_limit_of :: "uuid \<Rightarrow> string \<Rightarrow> db_rate_limit \<Rightarrow> bool" where
  "rate_limit_of p_user_id p_action_type rl =
     (rl_user_id rl = p_user_id \<and> rl_action_type rl = p_action_type)"

text \<open>\<^verbatim>\<open>check_rate_limit\<close>: deletes the pair's expired entries, counts the entries that
  expire after now, and answers whether the count is under the limit.\<close>

definition check_rate_limit ::
  "timestamp \<Rightarrow> uuid \<Rightarrow> string \<Rightarrow> int \<Rightarrow> int \<Rightarrow> store \<Rightarrow> bool \<times> store" where
  "check_rate_limit now p_user_id p_action_type p_max_attempts p_window_seconds st =
     (let kept = filter (\<lambda>rl. \<not> (rate_limit_of p_user_id p_action_type rl
                                    \<and> newDate (rl_expires_at rl) < now)) (rate_limits_tbl st);
          attempt_count = int (length (filter (\<lambda>rl. rate_limit_of p_user_id p_action_type rl
                                    \<and> newDate (rl_expires_at rl) > now) kept))
      in (attempt_count < p_max_attempts, st\<lparr>rate_limits_tbl := kept\<rparr>))"

text \<open>\<^verbatim>\<open>record_rate_limit_attempt\<close>: one new entry that expires a window from now.\<close>

definition record_rate_limit_attempt :: "timestamp \<Rightarrow> uuid \<Rightarrow> string \<Rightarrow> int \<Rightarrow> store \<Rightarrow> store" where
  "record_rate_limit_attempt now p_user_id p_action_type p_window_seconds st =
     st\<lparr>rate_limits_tbl := rate_limits_tbl st @
          [\<lparr> rl_user_id = p_user_id, rl_action_type = p_action_type,
             rl_created_at = Iso now,
             rl_expires_at = Iso (now + p_window_seconds * 1000) \<rparr>]\<rparr>"

definition max_bids_per_window :: int where
  "max_bids_per_window = 5"

definition window_seconds :: int where
  "window_seconds = 300"

text \<open>\<^verbatim>\<open>enforce_bid_rate_limit\<close>, the trigger before every insert into \<^verbatim>\<open>bids\<close>. The
  exception aborts the statement, so the store is then as it was.\<close>

definition enforce_bid_rate_limit :: "timestamp \<Rightarrow> uuid \<Rightarrow> store \<Rightarrow> db_error + store" where
  "enforce_bid_rate_limit now new_user_id st =
     (case check_rate_limit now new_user_id ''place_bid'' max_bids_per_window window_seconds st of
        (allowed, st1) \<Rightarrow>
          if \<not> allowed then Inl RATELIMIT
          else Inr (record_rate_limit_attempt now new_user_id ''place_bid'' window_seconds st1))"

subsection \<open>Requests to the store\<close>

text \<open>
  Every request reaches the store and commits on its own; the only refusal modelled is
  the one the repository defines, the rate limit trigger. Row level security of these
  tables is not among the sources and is not modelled. The first argument is the
  store's clock at the request.
\<close>

definition insert_bid ::
  "timestamp \<Rightarrow> uuid \<Rightarrow> uuid \<Rightarrow> uuid \<Rightarrow> rat \<Rightarrow> iso_string option \<Rightarrow> BidStatus option
     \<Rightarrow> store \<Rightarrow> db_error + store" where
  "insert_bid now new_id reservation_id user_id amount expires_at bstatus st =
     (case enforce_bid_rate_limit now user_id st of
        Inl e \<Rightarrow> Inl e
      | Inr st1 \<Rightarrow>
          Inr (st1\<lparr>bids_tbl := bids_tbl st1 @
                 [\<lparr> b_id = new_id, b_created_at = Iso now, b_reservation_id = reservation_id,
                    b_user_id = user_id, b_amount = amount, b_expires_at = expires_at,
                    b_status = bstatus \<rparr>]\<rparr>))"

text \<open>An update of \<^verbatim>\<open>reservations\<close>: every row the filter selects takes the new column
  values and then passes the bid expiration trigger. An update that selects no row is
  not an error.\<close>

definition update_reservations ::
  "timestamp \<Rightarrow> (db_reservation \<Rightarrow> bool) \<Rightarrow> (db_reservation \<Rightarrow> db_reservation)
     \<Rightarrow> store \<Rightarrow> db_error + store" where
  "update_reservations now selected set_columns st =
     Inr (st\<lparr>reservations_tbl :=
            map (\<lambda>row. if selected row then handle_bid_expiration now (set_columns row) else row)
              (reservations_tbl st)\<rparr>)"

definition update_bids ::
  "(db_bid \<Rightarrow> bool) \<Rightarrow> (db_bid \<Rightarrow> db_bid) \<Rightarrow> store \<Rightarrow> db_error + store" where
  "update_bids selected set_columns st =
     Inr (st\<lparr>bids_tbl := map (\<lambda>row. if selected row then set_columns row else row) (bids_tbl st)\<rparr>)"

definition insert_reservation_history ::
  "timestamp \<Rightarrow> uuid \<Rightarrow> uuid option \<Rightarrow> string option \<Rightarrow> rat option \<Rightarrow> store \<Rightarrow> db_error + store" where
  "insert_reservation_history now reservation_id buyer_id buyer_name hprice st =
     Inr (st\<lparr>reservation_history_tbl := reservation_history_tbl st @
            [\<lparr> h_created_at = Iso now, h_reservation_id = reservation_id, h_buyer_id = buyer_id,
               h_buyer_name = buyer_name, h_price = hprice \<rparr>]\<rparr>)"

definition has_id :: "uuid \<Rightarrow> db_reservation \<Rightarrow> bool" where
  "has_id lid row = (r_id row = Some lid)"

definition select_reservation :: "store \<Rightarrow> uuid \<Rightarrow> db_reservation option" where
  "select_reservation st lid = find (has_id lid) (reservations_tbl st)"

section \<open>The reservation context\<close>

text \<open>The signed-in user as \<^verbatim>\<open>useUser\<close> gives it; \<open>None\<close> when nobody is signed in.\<close>

record app_user =
  user_id :: uuid
  user_name :: "string option"

datatype thrown =
    Error string
  | AppError string string int int
  | SupabaseError db_error

text \<open>\<^verbatim>\<open>x || 0\<close> on a number that may be missing.\<close>

definition or_zero :: "'a::zero option \<Rightarrow> 'a" where
  "or_zero x = (case x of None \<Rightarrow> 0 | Some v \<Rightarrow> v)"

definition join_seller :: "store \<Rightarrow> db_reservation \<Rightarrow> db_reservation" where
  "join_seller st row =
     row\<lparr>r_users := (case find (\<lambda>u. Some (u_id u) = r_seller_id row) (users_tbl st) of
                        None \<Rightarrow> None | Some u \<Rightarrow> Some (u_name u))\<rparr>"

text \<open>\<^verbatim>\<open>fetchReservations\<close>: the provider's list of listings, read from the store. The
  rows keep the table's order; the order does not matter to a lookup by identifier.\<close>

definition fetchReservations :: "store \<Rightarrow> Reservation list" where
  "fetchReservations st = map (\<lambda>row. formatReservationFromDB (join_seller st row)) (reservations_tbl st)"

definition getReservationById :: "Reservation list \<Rightarrow> uuid \<Rightarrow> Reservation option" where
  "getReservationById reservations lid = find (\<lambda>r. rid r = Some lid) reservations"

text \<open>
  \<^verbatim>\<open>placeBid\<close> of the context. Arguments: the store's clock, the identifier the store
  gives the new bid, the signed-in user, the listing and the amount; the state is the
  store and the provider's list of listings. A refused insert is caught and answered
  with \<^verbatim>\<open>false\<close>.
\<close>

definition placeBid ::
  "timestamp \<Rightarrow> uuid \<Rightarrow> app_user option \<Rightarrow> uuid \<Rightarrow> rat \<Rightarrow> store \<times> Reservation list
     \<Rightarrow> thrown + (bool \<times> store \<times> Reservation list)" where
  "placeBid db_now new_id user lid amount state =
     (case state of (st, reservations) \<Rightarrow>
      (case user of
         None \<Rightarrow> Inl (Error ''You must be logged in to place a bid'')
       | Some u \<Rightarrow>
          (case getReservationById reservations lid of
             None \<Rightarrow> Inr (False, st, reservations)
           | Some reservation \<Rightarrow>
               if allowBidding reservation \<noteq> Some True then Inr (False, st, reservations)
               else if amount < or_zero (minimumBid reservation)
                       \<or> amount \<le> or_zero (currentBid reservation)
               then Inr (False, st, reservations)
               else
                 (case insert_bid db_now new_id lid (user_id u) amount None None st of
                    Inl bidError \<Rightarrow> Inr (False, st, reservations)
                  | Inr st1 \<Rightarrow>
                     (case update_reservations db_now (has_id lid)
                             (\<lambda>row. row\<lparr>r_current_bid := Some amount\<rparr>) st1 of
                        Inl updateError \<Rightarrow> Inr (False, st1, reservations)
                      | Inr st2 \<Rightarrow> Inr (True, st2, fetchReservations st2))))))"

text \<open>The two requests of \<^verbatim>\<open>buyNow\<close>: the update of the listing, then the insert into
  the sale history.\<close>

definition buyNow_update :: "timestamp \<Rightarrow> timestamp \<Rightarrow> Reservation \<Rightarrow> uuid \<Rightarrow> store \<Rightarrow> db_error + store" where
  "buyNow_update now db_now reservation lid st =
     (let newStock = or_zero (stockRemaining reservation) - 1;
          newStatus = (if newStock = 0 then Sold else Available)
      in update_reservations db_now (has_id lid)
           (\<lambda>row. row\<lparr> r_stock_remaining := Some newStock,
                        r_status := Some newStatus,
                        r_last_sale_price := price reservation,
                        r_last_sale_date := Some (toISOString now) \<rparr>) st)"

definition buyNow_history :: "timestamp \<Rightarrow> app_user \<Rightarrow> Reservation \<Rightarrow> uuid \<Rightarrow> store \<Rightarrow> db_error + store" where
  "buyNow_history db_now u reservation lid st =
     insert_reservation_history db_now lid (Some (user_id u)) (user_name u) (price reservation) st"

text \<open>\<^verbatim>\<open>buyNow\<close> of the context. Arguments: the client's clock, the store's clock, the
  signed-in user and the listing.\<close>

definition buyNow ::
  "timestamp \<Rightarrow> timestamp \<Rightarrow> app_user option \<Rightarrow> uuid \<Rightarrow> store \<times> Reservation list
     \<Rightarrow> thrown + (bool \<times> store \<times> Reservation list)" where
  "buyNow now db_now user lid state =
     (case state of (st, reservations) \<Rightarrow>
      (case user of
         None \<Rightarrow> Inl (Error ''You must be logged in to buy a reservation'')
       | Some u \<Rightarrow>
          (case getReservationById reservations lid of
             None \<Rightarrow> Inr (False, st, reservations)
           | Some reservation \<Rightarrow>
               if or_zero (stockRemaining reservation) - 1 < 0 then Inr (False, st, reservations)
               else
                 (case buyNow_update now db_now reservation lid st of
                    Inl updateError \<Rightarrow> Inr (False, st, reservations)
                  | Inr st1 \<Rightarrow>
                     (case buyNow_history db_now u reservation lid st1 of
                        Inl historyError \<Rightarrow> Inr (False, st1, reservations)
                      | Inr st2 \<Rightarrow> Inr (True, st2, fetchReservations st2))))))"

text \<open>What the store holds after each request of a \<^verbatim>\<open>buyNow\<close> that passes its checks:
  the states a reader of the store can see, in order.\<close>

definition buyNow_commits ::
  "timestamp \<Rightarrow> timestamp \<Rightarrow> app_user \<Rightarrow> Reservation \<Rightarrow> uuid \<Rightarrow> store \<Rightarrow> store list" where
  "buyNow_commits now db_now u reservation lid st =
     (case buyNow_update now db_now reservation lid st of
        Inl updateError \<Rightarrow> []
      | Inr st1 \<Rightarrow>
         (case buyNow_history db_now u reservation lid st1 of
            Inl historyError \<Rightarrow> [st1]
          | Inr st2 \<Rightarrow> [st1, st2]))"

section \<open>The API module\<close>

text \<open>\<^verbatim>\<open>Math.ceil(ms / 1000)\<close> on a whole number of milliseconds.\<close>

definition ceil_seconds :: "int \<Rightarrow> int" where
  "ceil_seconds ms = - ((- ms) div 1000)"

text \<open>The select both \<^verbatim>\<open>api.bids.create\<close> and \<^verbatim>\<open>api.bids.getRateLimit\<close> make: the
  user's \<^verbatim>\<open>place_bid\<close> entries that expire after the client's clock, latest expiry first,
  at most one. The session is the user's own, so the select policy of the table shows
  the rows.\<close>

definition active_place_bids :: "timestamp \<Rightarrow> uuid \<Rightarrow> store \<Rightarrow> db_rate_limit list" where
  "active_place_bids query_now uid st =
     filter (\<lambda>rl. rl_user_id rl = uid \<and> rl_action_type rl = ''place_bid''
                    \<and> newDate (rl_expires_at rl) > query_now) (rate_limits_tbl st)"

definition select_rate_limits :: "timestamp \<Rightarrow> uuid \<Rightarrow> store \<Rightarrow> db_rate_limit list" where
  "select_rate_limits query_now uid st =
     take 1 (sort_key (\<lambda>rl. - newDate (rl_expires_at rl)) (active_place_bids query_now uid st))"

text \<open>\<^verbatim>\<open>handleSupabaseError\<close> belongs to a module that is not among the sources; it is
  taken to raise the store's error.\<close>

definition handleSupabaseError :: "db_error \<Rightarrow> thrown" where
  "handleSupabaseError e = SupabaseError e"

text \<open>\<^verbatim>\<open>api.bids.create\<close>. Arguments: the client's clock when the select is sent, the
  client's clock when the answer is read, the store's clock at the insert, the new bid's
  identifier, and the bid (listing, user, amount).\<close>

definition bids_create ::
  "timestamp \<Rightarrow> timestamp \<Rightarrow> timestamp \<Rightarrow> uuid \<Rightarrow> uuid \<times> uuid \<times> rat \<Rightarrow> store
     \<Rightarrow> thrown + (db_bid \<times> store)" where
  "bids_create query_now now db_now new_id bid st =
     (case bid of (reservation_id, uid, amount) \<Rightarrow>
      (case select_rate_limits query_now uid st of
         rl # _ \<Rightarrow>
           Inl (AppError ''Too many bids. Please wait before trying again.'' ''RATELIMIT'' 429
                  (ceil_seconds (newDate (rl_expires_at rl) - now)))
       | [] \<Rightarrow>
          (case insert_bid db_now new_id reservation_id uid amount None None st of
             Inl e \<Rightarrow> Inl (handleSupabaseError e)
           | Inr st1 \<Rightarrow> Inr (last (bids_tbl st1), st1))))"


section \<open>The reservation detail page\<close>

text \<open>
  What a handler of the page leaves on the screen. The page is signed in exactly when
  \<^verbatim>\<open>useUser\<close> gives a user. Its state holds the listing it loaded and the listing's open
  bids, highest amount first.
\<close>

datatype page_effect =
    ShowAuthPrompt string
  | NoEffect
  | ModalClosed
  | Navigate string
  | SetError string
  | SetErrorBidTooLow rat

definition db_error_message :: "db_error \<Rightarrow> string" where
  "db_error_message e = (case e of RATELIMIT \<Rightarrow> ''Rate limit exceeded. Please wait before placing another bid.'')"

text \<open>The page's select of the open bids of a listing, ordered by amount, descending.\<close>

definition select_open_bids :: "store \<Rightarrow> uuid \<Rightarrow> db_bid list" where
  "select_open_bids st lid =
     sort_key (\<lambda>b. - b_amount b)
       (filter (\<lambda>b. b_reservation_id b = lid \<and> b_status b = Some BidOpen) (bids_tbl st))"

text \<open>\<^verbatim>\<open>handlePlaceBid\<close>. Arguments: the client's clock, the store's clock, the new bid's
  identifier, the user, the page's open bids, the amount typed (\<open>None\<close> when it does not
  parse to a number), the days until expiry and the listing. A day is 86400000 ms.\<close>

definition handlePlaceBid ::
  "timestamp \<Rightarrow> timestamp \<Rightarrow> uuid \<Rightarrow> app_user option \<Rightarrow> db_bid list \<Rightarrow> rat option \<Rightarrow> int \<Rightarrow> uuid
     \<Rightarrow> store \<Rightarrow> page_effect \<times> store" where
  "handlePlaceBid now db_now new_id user bids bidValue expiryDays lid st =
     (case user of
        None \<Rightarrow> (ShowAuthPrompt ''bid'', st)
      | Some u \<Rightarrow>
         (case bidValue of
            None \<Rightarrow> (SetError ''Please enter a valid bid amount'', st)
          | Some v \<Rightarrow>
              if v \<le> 0 then (SetError ''Please enter a valid bid amount'', st)
              else
                (let highestBid = (case bids of [] \<Rightarrow> 0 | b # _ \<Rightarrow> b_amount b) in
                 if v \<le> highestBid then (SetErrorBidTooLow highestBid, st)
                 else
                   (case insert_bid db_now new_id lid (user_id u) v
                           (Some (toISOString (now + expiryDays * 86400000))) (Some BidOpen) st of
                      Inl e \<Rightarrow> (SetError (db_error_message e), st)
                    | Inr st1 \<Rightarrow> (ModalClosed, st1)))))"

text \<open>\<^verbatim>\<open>handleBuyNow\<close>: the sale history entry first, then the listing's status.\<close>

definition handleBuyNow ::
  "timestamp \<Rightarrow> app_user option \<Rightarrow> db_reservation option \<Rightarrow> uuid \<Rightarrow> store \<Rightarrow> page_effect \<times> store" where
  "handleBuyNow db_now user reservation lid st =
     (case user of
        None \<Rightarrow> (ShowAuthPrompt ''buy'', st)
      | Some u \<Rightarrow>
         (case reservation of
            None \<Rightarrow> (NoEffect, st)
          | Some _ \<Rightarrow>
             (case insert_reservation_history db_now lid (Some (user_id u)) (user_name u) None st of
                Inl e \<Rightarrow> (SetError (db_error_message e), st)
              | Inr st1 \<Rightarrow>
                 (case update_reservations db_now (has_id lid) (\<lambda>row. row\<lparr>r_status := Some Sold\<rparr>) st1 of
                    Inl updateError \<Rightarrow> (SetError (db_error_message updateError), st1)
                  | Inr st2 \<Rightarrow> (Navigate ''/dashboard'', st2)))))"

text \<open>\<^verbatim>\<open>handleSellNow\<close>, accepting the highest bid the page shows: the sale history
  entry, then the update of the listing filtered by identifier and seller, then the
  update of the bid.\<close>

definition handleSellNow ::
  "timestamp \<Rightarrow> app_user option \<Rightarrow> db_reservation option \<Rightarrow> db_bid list \<Rightarrow> uuid \<Rightarrow> store
     \<Rightarrow> page_effect \<times> store" where
  "handleSellNow db_now user reservation bids lid st =
     (case user of
        None \<Rightarrow> (ShowAuthPrompt ''sell'', st)
      | Some u \<Rightarrow>
         (case (reservation, bids) of
            (None, _) \<Rightarrow> (NoEffect, st)
          | (Some _, []) \<Rightarrow> (NoEffect, st)
          | (Some _, highestBid # _) \<Rightarrow>
             (case insert_reservation_history db_now lid (Some (b_user_id highestBid))
                     (Some ''Bid Accepted'') None st of
                Inl e \<Rightarrow> (SetError (db_error_message e), st)
              | Inr st1 \<Rightarrow>
                 (case update_reservations db_now
                         (\<lambda>row. has_id lid row \<and> r_seller_id row = Some (user_id u))
                         (\<lambda>row. row\<lparr>r_status := Some Sold, r_price := Some (b_amount highestBid)\<rparr>)
                         st1 of
                    Inl updateError \<Rightarrow> (SetError (db_error_message updateError), st1)
                  | Inr st2 \<Rightarrow>
                     (case update_bids (\<lambda>b. b_id b = b_id highestBid)
                             (\<lambda>b. b\<lparr>b_status := Some BidAccepted\<rparr>) st2 of
                        Inl bidError \<Rightarrow> (SetError (db_error_message bidError), st2)
                      | Inr st3 \<Rightarrow> (Navigate ''/dashboard'', st3))))))"

subsection \<open>Market statistics\<close>

record Sale =
  s_reservation_id :: uuid
  s_price :: rat
  executed_at :: iso_string

record MarketStats =
  stats_lastSalePrice :: "rat option"
  thirtyDayAvg :: "rat option"
  highPrice :: "rat option"
  lowPrice :: "rat option"
  salesCount :: nat




text \<open>\<^verbatim>\<open>Math.max(...prices)\<close> and \<^verbatim>\<open>Math.min(...prices)\<close> on a list that is not empty.\<close>

definition math_max :: "rat list \<Rightarrow> rat" where
  "math_max prices = foldl max (hd prices) (tl prices)"

definition math_min :: "rat list \<Rightarrow> rat" where
  "math_min prices = foldl min (hd prices) (tl prices)"

text \<open>The statistics block of \<^verbatim>\<open>fetchReservation\<close>: from the client's clock, the
  formatted sales and the statistics shown so far. Thirty days are 30 * 86400000 ms.\<close>

definition calculate_market_stats :: "timestamp \<Rightarrow> Sale list \<Rightarrow> MarketStats \<Rightarrow> MarketStats" where
  "calculate_market_stats now formattedSales marketStats =
     (if length formattedSales > 0 then
        (let prices = map s_price formattedSales;
             thirtyDaysAgo = now - 30 * 86400000;
             thirtyDaySales = filter (\<lambda>sale. newDate (executed_at sale) \<ge> thirtyDaysAgo) formattedSales;
             thirtyDayPrices = map s_price thirtyDaySales
         in \<lparr> stats_lastSalePrice = Some (hd prices),
              thirtyDayAvg =
                (if length thirtyDayPrices \<noteq> 0
                 then Some (foldl (\<lambda>sum price. sum + price) 0 thirtyDayPrices
                             / of_nat (length thirtyDayPrices))
                 else None),
              highPrice = Some (math_max prices),
              lowPrice = Some (math_min prices),
              salesCount = length formattedSales \<rparr>)
      else marketStats)"


section \<open>Notions the properties are stated with\<close>

text \<open>The number of a user's \<^verbatim>\<open>place_bid\<close> entries that have not expired: the attempts
  of the current window.\<close>

definition active_attempts :: "timestamp \<Rightarrow> uuid \<Rightarrow> store \<Rightarrow> nat" where
  "active_attempts now uid st =
     length (filter (\<lambda>rl. rate_limit_of uid ''place_bid'' rl \<and> newDate (rl_expires_at rl) > now)
               (rate_limits_tbl st))"



text \<open>The listing's highest open bid, as the page reads it from the table of bids.\<close>

definition highest_open_bid :: "store \<Rightarrow> uuid \<Rightarrow> rat option" where
  "highest_open_bid st lid =
     (case select_open_bids st lid of [] \<Rightarrow> None | b # _ \<Rightarrow> Some (b_amount b))"

text \<open>A run of \<^verbatim>\<open>placeBid\<close> calls by one user, each with the store's clock, the new
  bid's identifier, the listing and the amount; the answers, and the state at the end.\<close>

fun placeBids ::
  "(timestamp \<times> uuid \<times> uuid \<times> rat) list \<Rightarrow> app_user option \<Rightarrow> store \<times> Reservation list
     \<Rightarrow> bool list \<times> store \<times> Reservation list" where
  "placeBids [] user state = ([], state)"
| "placeBids ((db_now, new_id, lid, amount) # rest) user state =
     (case placeBid db_now new_id user lid amount state of
        Inl e \<Rightarrow> ([], state)
      | Inr (ok, state') \<Rightarrow>
          (case placeBids rest user state' of (oks, final) \<Rightarrow> (ok # oks, final)))"




text \<open>What the store holds after each request of a \<^verbatim>\<open>handleBuyNow\<close> by a signed-in
  user on a loaded listing.\<close>

definition handleBuyNow_commits :: "timestamp \<Rightarrow> app_user \<Rightarrow> uuid \<Rightarrow> store \<Rightarrow> store list" where
  "handleBuyNow_commits db_now u lid st =
     (case insert_reservation_history db_now lid (Some (user_id u)) (user_name u) None st of
        Inl e \<Rightarrow> []
      | Inr st1 \<Rightarrow>
         (case update_reservations db_now (has_id lid) (\<lambda>row. row\<lparr>r_status := Some Sold\<rparr>) st1 of
            Inl updateError \<Rightarrow> [st1]
          | Inr st2 \<Rightarrow> [st1, st2]))"

text \<open>A run of inserts into \<^verbatim>\<open>bids\<close> by one user, at the given instants of the store's
  clock, as the rate limit trigger sees them: which are admitted.\<close>

fun bid_attempts :: "timestamp list \<Rightarrow> uuid \<Rightarrow> store \<Rightarrow> bool list" where
  "bid_attempts [] uid st = []"
| "bid_attempts (t # ts) uid st =
     (case enforce_bid_rate_limit t uid st of
        Inl e \<Rightarrow> False # bid_attempts ts uid st
      | Inr st' \<Rightarrow> True # bid_attempts ts uid st')"

text \<open>The rate limit entries of a user over a stretch of time from \<open>lo\<close> to \<open>hi\<close>: each
  has expired by \<open>lo\<close> or lasts until \<open>hi\<close>, and \<open>k\<close> of them last.\<close>

definition window_state :: "uuid \<Rightarrow> timestamp \<Rightarrow> timestamp \<Rightarrow> nat \<Rightarrow> store \<Rightarrow> bool" where
  "window_state uid lo hi k st =
     ((\<forall>rl\<in>set (rate_limits_tbl st). rate_limit_of uid ''place_bid'' rl \<longrightarrow>
          newDate (rl_expires_at rl) \<le> lo \<or> hi \<le> newDate (rl_expires_at rl))
      \<and> length (filter (\<lambda>rl. rate_limit_of uid ''place_bid'' rl \<and> hi \<le> newDate (rl_expires_at rl))
                   (rate_limits_tbl st)) = k)"

section \<open>Sample data\<close>

text \<open>A listing with every field defined.\<close>

definition sample_listing :: Reservation where
  "sample_listing =
     \<lparr> rid = Some ''r1'', restaurantName = Some ''Nobu'', location = Some ''London'',
       cuisine = Some ''Japanese'', date = Some 1746000000000, time = Some ''19:30'',
       partySize = Some 2, price = Some 250, originalPrice = Some 200,
       sellerId = Some ''seller'', sellerName = Some ''Sam'', status = Some Available,
       description = Some ''Window table'', imageUrl = Some ''nobu.png'',
       popularity = Some 80, currentBid = Some 150, minimumBid = Some 100,
       allowBidding = Some True, bidEndTime = Some 1745000000000, stockRemaining = Some 1,
       lastSalePrice = Some 240, lastSaleDate = Some 1744000000000,
       latitude = Some (103 / 2), longitude = Some (-1 / 8) \<rparr>"

definition empty_store :: store where
  "empty_store =
     \<lparr> reservations_tbl = [], bids_tbl = [], reservation_history_tbl = [],
       rate_limits_tbl = [], users_tbl = [] \<rparr>"

text \<open>The entry the rate limit trigger records for an attempt at instant \<open>t\<close>.\<close>

definition place_bid_attempt :: "uuid \<Rightarrow> timestamp \<Rightarrow> db_rate_limit" where
  "place_bid_attempt uid t =
     \<lparr> rl_user_id = uid, rl_action_type = ''place_bid'', rl_created_at = Iso t,
       rl_expires_at = Iso (t + 300000) \<rparr>"


text \<open>A single-unit listing that takes bids from 100, with no bid yet, and the users
  around it.\<close>

definition listing_row :: db_reservation where
  "listing_row =
     \<lparr> r_id = Some ''r1'', r_restaurant_name = Some ''Nobu'', r_location = Some ''London'',
       r_cuisine = Some ''Japanese'', r_date = Some (Iso 1746000000000), r_time = Some ''19:30'',
       r_party_size = Some 2, r_price = Some 250, r_original_price = Some 200,
       r_seller_id = Some ''seller'', r_status = Some Available, r_description = None,
       r_image_url = None, r_popularity = Some 80, r_allow_bidding = Some True,
       r_minimum_bid = Some 100, r_current_bid = None, r_bid_end_time = None,
       r_stock_remaining = Some 1, r_last_sale_price = None, r_last_sale_date = None,
       r_latitude = None, r_longitude = None, r_users = None \<rparr>"

definition market_store :: store where
  "market_store =
     empty_store\<lparr> reservations_tbl := [listing_row],
                  users_tbl := [\<lparr>u_id = ''seller'', u_name = Some ''Sam''\<rparr>,
                                \<lparr>u_id = ''bidder'', u_name = Some ''Bea''\<rparr>] \<rparr>"


definition bidder :: app_user where
  "bidder = \<lparr>user_id = ''bidder'', user_name = Some ''Bea''\<rparr>"


text \<open>The store after the bidder has bid 150 on the page, for seven days.\<close>

definition store_with_open_bid :: store where
  "store_with_open_bid =
     snd (handlePlaceBid 0 0 ''b1'' (Some bidder) [] (Some 150) 7 ''r1'' market_store)"




text \<open>The store with the open bid of 150 mirrored in the listing's current bid.\<close>

definition mirrored_store :: store where
  "mirrored_store =
     store_with_open_bid\<lparr>reservations_tbl := [listing_row\<lparr>r_current_bid := Some 150\<rparr>]\<rparr>"

text \<open>Scenario C: six listings, and six bids of one user within a minute.\<close>

definition six_listings_store :: store where
  "six_listings_store =
     market_store\<lparr>reservations_tbl :=
       map (\<lambda>lid. listing_row\<lparr>r_id := Some lid\<rparr>) [''r1'', ''r2'', ''r3'', ''r4'', ''r5'', ''r6'']\<rparr>"

definition scenario_C_bids :: "(timestamp \<times> uuid \<times> uuid \<times> rat) list" where
  "scenario_C_bids =
     [(0, ''b1'', ''r1'', 150), (10000, ''b2'', ''r2'', 150), (20000, ''b3'', ''r3'', 150),
      (30000, ''b4'', ''r4'', 150), (40000, ''b5'', ''r5'', 150), (50000, ''b6'', ''r6'', 150)]"

section \<open>Properties of the bid expiration trigger\<close>

lemma bid_has_ended_after_firing:
  "bid_has_ended now new \<Longrightarrow> \<not> bid_has_ended now' (handle_bid_expiration now new)"
  by (simp add: handle_bid_expiration_def bid_has_ended_def)

lemma bid_has_ended_mono:
  "bid_has_ended now new \<Longrightarrow> now \<le> now' \<Longrightarrow> bid_has_ended now' new"
  by (auto simp: bid_has_ended_def split: option.splits)

text \<open>
  Claim C8. Running the expiry sweep twice in succession on a listing gives the same
  listing as running it once: at one instant the trigger is idempotent, and once it has
  moved a listing to pending or expired no later run, at whatever instant, changes the
  listing again. As a single equation: two runs end where the first run ended if it
  fired, and where the second run alone would have ended otherwise.
\<close>

theorem handle_bid_expiration_idempotent:
  "handle_bid_expiration now (handle_bid_expiration now new) = handle_bid_expiration now new
   \<and> handle_bid_expiration now' (handle_bid_expiration now new) =
       (if bid_has_ended now new then handle_bid_expiration now new
        else handle_bid_expiration now' new)"
proof -
  have fired: "handle_bid_expiration t (handle_bid_expiration now new) = handle_bid_expiration now new"
    if "bid_has_ended now new" for t
    using bid_has_ended_after_firing [OF that, of t]
    by (simp add: handle_bid_expiration_def [of t])
  have idle: "handle_bid_expiration now new = new" if "\<not> bid_has_ended now new"
    using that by (simp add: handle_bid_expiration_def)
  show ?thesis
    by (cases "bid_has_ended now new") (simp_all add: fired idle)
qed


section \<open>The conversion between listings and rows\<close>

lemma newDate_toISOString: "newDate (toISOString t) = t"
  by (simp add: toISOString_def)

lemma read_back_date: "map_option newDate (map_option toISOString d) = d"
  by (cases d) (simp_all add: newDate_toISOString)

lemma read_back_optional_date:
  "(case d of None \<Rightarrow> None | Some x \<Rightarrow> ((\<lambda>s. Some (newDate s)) \<circ> toISOString) x) = d"
  by (cases d) (simp_all add: newDate_toISOString)

text \<open>
  Claim C10. Writing a listing to a row with \<^verbatim>\<open>formatReservationToDB\<close> and reading the
  row back with \<^verbatim>\<open>formatReservationFromDB\<close> preserves each of the twenty-two mapped
  fields. The listing must carry its date, which the interface requires; an optional field
  that is defined comes back with its value, and one that is absent comes back absent.
\<close>

theorem format_reservation_round_trip:
  assumes "date reservation \<noteq> None"
  defines "back \<equiv> formatReservationFromDB (formatReservationToDB reservation)"
  shows "restaurantName back = restaurantName reservation \<and> location back = location reservation
       \<and> cuisine back = cuisine reservation \<and> date back = date reservation
       \<and> time back = time reservation \<and> partySize back = partySize reservation
       \<and> price back = price reservation \<and> originalPrice back = originalPrice reservation
       \<and> sellerId back = sellerId reservation \<and> status back = status reservation
       \<and> description back = description reservation \<and> imageUrl back = imageUrl reservation
       \<and> popularity back = popularity reservation \<and> allowBidding back = allowBidding reservation
       \<and> minimumBid back = minimumBid reservation \<and> currentBid back = currentBid reservation
       \<and> bidEndTime back = bidEndTime reservation
       \<and> stockRemaining back = stockRemaining reservation
       \<and> lastSalePrice back = lastSalePrice reservation
       \<and> lastSaleDate back = lastSaleDate reservation
       \<and> latitude back = latitude reservation \<and> longitude back = longitude reservation"
  unfolding back_def formatReservationFromDB_def formatReservationToDB_def
  by (simp add: read_back_date read_back_optional_date)

theorem format_reservation_round_trip_witness:
  "date sample_listing \<noteq> None
   \<and> bidEndTime (formatReservationFromDB (formatReservationToDB sample_listing)) = Some 1745000000000
   \<and> minimumBid (formatReservationFromDB (formatReservationToDB sample_listing)) = Some 100
   \<and> stockRemaining (formatReservationFromDB (formatReservationToDB sample_listing)) = Some 1
   \<and> date (formatReservationFromDB (formatReservationToDB sample_listing)) = Some 1746000000000"
proof -
  have d: "date sample_listing \<noteq> None"
    by (simp add: sample_listing_def)
  show ?thesis
    using format_reservation_round_trip [OF d] d
    by (simp add: sample_listing_def)
qed

section \<open>The rate limiter\<close>

lemma check_rate_limit_answer:
  "fst (check_rate_limit now uid ''place_bid'' m w st) = (int (active_attempts now uid st) < m)"
  by (simp add: check_rate_limit_def Let_def active_attempts_def cong: rev_conj_cong)

lemma enforce_bid_rate_limit_admits:
  "(\<exists>st'. enforce_bid_rate_limit now uid st = Inr st') = (active_attempts now uid st < 5)"
proof -
  have "fst (check_rate_limit now uid ''place_bid'' max_bids_per_window window_seconds st)
          = (int (active_attempts now uid st) < 5)"
    by (simp add: check_rate_limit_answer max_bids_per_window_def)
  then show ?thesis
    by (auto simp: enforce_bid_rate_limit_def split: prod.splits)
qed

lemma enforce_bid_rate_limit_counts:
  assumes "enforce_bid_rate_limit now uid st = Inr st'"
  shows "active_attempts now uid st' = Suc (active_attempts now uid st)"
  using assms
  by (auto simp: enforce_bid_rate_limit_def check_rate_limit_def Let_def active_attempts_def
      record_rate_limit_attempt_def window_seconds_def rate_limit_of_def
      split: if_splits cong: rev_conj_cong)

text \<open>The ceiling of the trigger: of inserts by one user at instants in ascending order,
  all less than a window after the first, with no entry of the user unexpired at the
  first, the first five are admitted and every further one is refused.\<close>

lemma window_state_active:
  assumes "window_state uid lo hi k st" and "lo \<le> t" and "t < hi"
  shows "active_attempts t uid st = k"
proof -
  have "filter (\<lambda>rl. rate_limit_of uid ''place_bid'' rl \<and> t < newDate (rl_expires_at rl)) (rate_limits_tbl st)
      = filter (\<lambda>rl. rate_limit_of uid ''place_bid'' rl \<and> hi \<le> newDate (rl_expires_at rl)) (rate_limits_tbl st)"
    using assms by (intro filter_cong) (auto simp: window_state_def)
  with assms(1) show ?thesis
    by (simp add: active_attempts_def window_state_def)
qed

lemma filter_filter_absorb:
  assumes "\<And>x. P x \<Longrightarrow> Q x"
  shows "filter P (filter Q xs) = filter P xs"
  using assms by (induction xs) auto

lemma window_state_step:
  assumes "window_state uid lo hi k st" and "lo \<le> t" and "t < hi" and "hi \<le> t + 300000"
    and "enforce_bid_rate_limit t uid st = Inr st'"
  shows "window_state uid lo hi (Suc k) st'"
proof -
  let ?kept = "filter (\<lambda>rl. \<not> (rate_limit_of uid ''place_bid'' rl \<and> newDate (rl_expires_at rl) < t))
                 (rate_limits_tbl st)"
  let ?live = "\<lambda>rl. rate_limit_of uid ''place_bid'' rl \<and> hi \<le> newDate (rl_expires_at rl)"
  have st': "rate_limits_tbl st' = ?kept @ [place_bid_attempt uid t]"
    using assms(5)
    by (auto simp: enforce_bid_rate_limit_def check_rate_limit_def Let_def record_rate_limit_attempt_def
        window_seconds_def place_bid_attempt_def split: if_splits)
  have new: "?live (place_bid_attempt uid t)"
    using assms(4) by (simp add: rate_limit_of_def place_bid_attempt_def)
  have count: "length (filter ?live (rate_limits_tbl st')) = Suc k"
  proof -
    have "filter ?live (rate_limits_tbl st') = filter ?live ?kept @ filter ?live [place_bid_attempt uid t]"
      by (simp only: st' filter_append)
    also have "filter ?live ?kept = filter ?live (rate_limits_tbl st)"
      by (rule filter_filter_absorb) (use assms(3) in auto)
    also have "filter ?live [place_bid_attempt uid t] = [place_bid_attempt uid t]"
      using new by simp
    finally show ?thesis
      using assms(1) by (simp add: window_state_def)
  qed
  have apart: "\<forall>rl\<in>set (rate_limits_tbl st'). rate_limit_of uid ''place_bid'' rl \<longrightarrow>
          newDate (rl_expires_at rl) \<le> lo \<or> hi \<le> newDate (rl_expires_at rl)"
    using assms(1) new by (auto simp: st' window_state_def)
  show ?thesis
    unfolding window_state_def by (intro conjI apart count)
qed

lemma bid_attempts_in_window:
  assumes "window_state uid lo hi k st"
    and "\<forall>t\<in>set ts. lo \<le> t \<and> t < hi \<and> hi \<le> t + 300000"
  shows "bid_attempts ts uid st
           = replicate (min (length ts) (5 - k)) True @ replicate (length ts - (5 - k)) False"
  using assms
proof (induction ts arbitrary: k st)
  case Nil
  then show ?case by simp
next
  case (Cons t ts)
  from Cons.prems have t: "lo \<le> t" "t < hi" "hi \<le> t + 300000" by simp_all
  have act: "active_attempts t uid st = k"
    using window_state_active [OF Cons.prems(1) t(1,2)] .
  show ?case
  proof (cases "k < 5")
    case True
    then obtain st' where st': "enforce_bid_rate_limit t uid st = Inr st'"
      using enforce_bid_rate_limit_admits [of t uid st] act by auto
    have "window_state uid lo hi (Suc k) st'"
      using window_state_step [OF Cons.prems(1) t st'] .
    from Cons.IH [OF this] Cons.prems(2)
    have "bid_attempts ts uid st'
           = replicate (min (length ts) (5 - Suc k)) True @ replicate (length ts - (5 - Suc k)) False"
      by simp
    moreover from True have "min (Suc (length ts)) (5 - k) = Suc (min (length ts) (5 - Suc k))"
      by auto
    moreover from True have "Suc (length ts) - (5 - k) = length ts - (5 - Suc k)"
      by auto
    ultimately show ?thesis
      by (simp add: st')
  next
    case False
    then have "\<not> (\<exists>st'. enforce_bid_rate_limit t uid st = Inr st')"
      using enforce_bid_rate_limit_admits [of t uid st] act by simp
    then obtain e where e: "enforce_bid_rate_limit t uid st = Inl e"
      by (cases "enforce_bid_rate_limit t uid st") auto
    from Cons.IH [OF Cons.prems(1)] Cons.prems(2)
    have "bid_attempts ts uid st
           = replicate (min (length ts) (5 - k)) True @ replicate (length ts - (5 - k)) False"
      by simp
    with False show ?thesis
      by (simp add: e)
  qed
qed

lemma rate_limit_ceiling:
  assumes "sorted (t0 # ts)" and "\<forall>t\<in>set ts. t < t0 + 300000"
    and "\<forall>rl\<in>set (rate_limits_tbl st). rate_limit_of uid ''place_bid'' rl \<longrightarrow>
           newDate (rl_expires_at rl) \<le> t0"
  shows "bid_attempts (t0 # ts) uid st
           = replicate (min (Suc (length ts)) 5) True @ replicate (Suc (length ts) - 5) False"
proof -
  have ws: "window_state uid t0 (t0 + 300000) 0 st"
    using assms(3) by (auto simp: window_state_def filter_empty_conv)
  have "\<forall>t\<in>set (t0 # ts). t0 \<le> t \<and> t < t0 + 300000 \<and> t0 + 300000 \<le> t + 300000"
    using assms(1,2) by auto
  from bid_attempts_in_window [OF ws this] show ?thesis by simp
qed

text \<open>Within \<^verbatim>\<open>api.bids.create\<close> a user without an unexpired entry passes the
  trigger as well, the store's clock not being behind the client's.\<close>

lemma no_active_attempts:
  assumes "active_place_bids query_now uid st = []" and "query_now \<le> db_now"
  shows "active_attempts db_now uid st = 0"
proof -
  have "\<not> (rate_limit_of uid ''place_bid'' rl \<and> db_now < newDate (rl_expires_at rl))"
    if "rl \<in> set (rate_limits_tbl st)" for rl
  proof
    assume a: "rate_limit_of uid ''place_bid'' rl \<and> db_now < newDate (rl_expires_at rl)"
    with assms(2) that have "rl \<in> set (active_place_bids query_now uid st)"
      by (simp add: active_place_bids_def rate_limit_of_def)
    with assms(1) show False by simp
  qed
  then show ?thesis
    by (simp add: active_attempts_def filter_empty_conv)
qed

lemma bids_create_admits:
  assumes "active_place_bids query_now uid st = []" and "query_now \<le> db_now"
  shows "\<exists>b st'. bids_create query_now now db_now new_id (lid, uid, amount) st = Inr (b, st')"
proof -
  have "active_attempts db_now uid st < 5"
    using no_active_attempts [OF assms] by simp
  then obtain st1 where "enforce_bid_rate_limit db_now uid st = Inr st1"
    using enforce_bid_rate_limit_admits [of db_now uid st] by blast
  moreover have "select_rate_limits query_now uid st = []"
    by (simp add: select_rate_limits_def assms(1))
  ultimately show ?thesis
    by (simp add: bids_create_def insert_bid_def)
qed

text \<open>Scenario C through \<^verbatim>\<open>placeBid\<close>, whose inserts meet the trigger only: five bids
  within a minute are admitted and the sixth is refused.\<close>

lemma scenario_C_through_placeBid:
  "fst (placeBids scenario_C_bids (Some bidder) (six_listings_store, fetchReservations six_listings_store))
     = [True, True, True, True, True, False]"
  by code_simp

text \<open>
  Claim C1, on \<^verbatim>\<open>api.bids.create\<close>. A user with no bid yet places one at 0 s, which is
  admitted and recorded by the trigger. A second bid 10 s later, the second of the
  window, is refused as rate limited with 290 s to wait: the function refuses as soon as
  one unexpired entry exists, while the trigger (see \<open>enforce_bid_rate_limit_admits\<close>)
  admits five per window.
\<close>

theorem bids_create_blocks_after_one_bid:
  "map_sum id fst (bids_create 0 0 0 ''b1'' (''r1'', ''u1'', 150) empty_store)
     = Inr \<lparr> b_id = ''b1'', b_created_at = Iso 0, b_reservation_id = ''r1'', b_user_id = ''u1'',
             b_amount = 150, b_expires_at = None, b_status = None \<rparr>
   \<and> (case bids_create 0 0 0 ''b1'' (''r1'', ''u1'', 150) empty_store of
        Inl e \<Rightarrow> Inl e
      | Inr (b, st) \<Rightarrow> bids_create 10000 10000 10000 ''b2'' (''r2'', ''u1'', 200) st)
     = Inl (AppError ''Too many bids. Please wait before trying again.'' ''RATELIMIT'' 429 290)"
  by code_simp


section \<open>The remaining time of a rate limited bid\<close>








section \<open>Accepting a bid\<close>

text \<open>Whoever is signed in, \<^verbatim>\<open>handleSellNow\<close> on a loaded listing with an open bid
  ends by navigating on, with one more entry in the sale history.\<close>

lemma handleSellNow_whoever_signed_in:
  "\<exists>st'. handleSellNow db_now (Some u) (Some reservation) (highestBid # bids) lid st
           = (Navigate ''/dashboard'', st')
        \<and> reservation_history_tbl st' = reservation_history_tbl st @
             [\<lparr> h_created_at = Iso db_now, h_reservation_id = lid,
                h_buyer_id = Some (b_user_id highestBid), h_buyer_name = Some ''Bid Accepted'',
                h_price = None \<rparr>]"
  by (simp add: handleSellNow_def insert_reservation_history_def update_reservations_def
      update_bids_def)



section \<open>Buying now\<close>

lemma find_map_selected:
  assumes "\<And>x. P x \<Longrightarrow> P (f x)"
  shows "find P (map (\<lambda>x. if P x then f x else x) xs) = map_option f (find P xs)"
  using assms by (induction xs) auto



lemma handle_bid_expiration_keeps:
  "r_id (handle_bid_expiration now new) = r_id new"
  "r_stock_remaining (handle_bid_expiration now new) = r_stock_remaining new"
  "r_last_sale_price (handle_bid_expiration now new) = r_last_sale_price new"
  "r_last_sale_date (handle_bid_expiration now new) = r_last_sale_date new"
  "r_price (handle_bid_expiration now new) = r_price new"
  "r_current_bid (handle_bid_expiration now new) = r_current_bid new"
  "r_seller_id (handle_bid_expiration now new) = r_seller_id new"
  by (simp_all add: handle_bid_expiration_def)

lemma handle_bid_expiration_status:
  "r_status (handle_bid_expiration now new) =
     (if bid_has_ended now new
      then (if r_current_bid new \<noteq> None then Some Pending else Some Expired)
      else r_status new)"
  by (simp add: handle_bid_expiration_def)

lemma select_after_update:
  assumes "select_reservation st lid = Some row"
    and "\<And>r. r_id (set_columns r) = r_id r"
  shows "\<exists>st1. update_reservations db_now (has_id lid) set_columns st = Inr st1
           \<and> select_reservation st1 lid = Some (handle_bid_expiration db_now (set_columns row))
           \<and> bids_tbl st1 = bids_tbl st
           \<and> reservation_history_tbl st1 = reservation_history_tbl st
           \<and> rate_limits_tbl st1 = rate_limits_tbl st
           \<and> users_tbl st1 = users_tbl st"
proof -
  have keep: "has_id lid (handle_bid_expiration db_now (set_columns r))" if "has_id lid r" for r
    using that assms(2) by (simp add: has_id_def handle_bid_expiration_keeps)
  have "find (has_id lid)
          (map (\<lambda>r. if has_id lid r then handle_bid_expiration db_now (set_columns r) else r)
             (reservations_tbl st))
        = map_option (\<lambda>r. handle_bid_expiration db_now (set_columns r))
            (find (has_id lid) (reservations_tbl st))"
    by (rule find_map_selected) (rule keep)
  then show ?thesis
    using assms(1) by (simp add: update_reservations_def select_reservation_def)
qed





text \<open>The purchase in steps: the store a successful purchase returns is the last of
  the committed states, and after the first request of \<^verbatim>\<open>buyNow\<close> on a listing's last
  unit the listing is sold while the sale history is what it was.\<close>

lemma buyNow_ends_at_last_commit:
  assumes "getReservationById reservations lid = Some reservation"
    and "buyNow now db_now (Some u) lid (st, reservations) = Inr (True, st', reservations')"
  shows "buyNow_commits now db_now u reservation lid st \<noteq> []
         \<and> st' = last (buyNow_commits now db_now u reservation lid st)"
  using assms
  by (auto simp: buyNow_def buyNow_commits_def split: if_splits sum.splits)

lemma handleBuyNow_ends_at_last_commit:
  assumes "handleBuyNow db_now (Some u) (Some reservation) lid st = (Navigate target, st')"
  shows "handleBuyNow_commits db_now u lid st \<noteq> []
         \<and> st' = last (handleBuyNow_commits db_now u lid st)"
  using assms
  by (auto simp: handleBuyNow_def handleBuyNow_commits_def split: sum.splits)

lemma buyNow_first_commit:
  assumes "select_reservation st lid = Some row"
    and "stockRemaining reservation = Some 1"
  shows "\<exists>st1 st2 row1. buyNow_commits now db_now u reservation lid st = [st1, st2]
           \<and> select_reservation st1 lid = Some row1 \<and> r_status row1 = Some Sold
           \<and> reservation_history_tbl st1 = reservation_history_tbl st"
proof -
  let ?set = "\<lambda>r::db_reservation. r\<lparr> r_stock_remaining := Some 0, r_status := Some Sold,
       r_last_sale_price := price reservation, r_last_sale_date := Some (toISOString now) \<rparr>"
  have upd: "buyNow_update now db_now reservation lid st
               = update_reservations db_now (has_id lid) ?set st"
    by (simp add: buyNow_update_def Let_def assms(2) or_zero_def)
  from select_after_update [OF assms(1), of ?set db_now]
  obtain st1 where st1: "update_reservations db_now (has_id lid) ?set st = Inr st1"
    and sel1: "select_reservation st1 lid = Some (handle_bid_expiration db_now (?set row))"
    and hist1: "reservation_history_tbl st1 = reservation_history_tbl st"
    by auto
  have "\<not> bid_has_ended db_now (?set row)"
    by (simp add: bid_has_ended_def)
  then have "r_status (handle_bid_expiration db_now (?set row)) = Some Sold"
    by (simp add: handle_bid_expiration_status)
  with st1 sel1 hist1 show ?thesis
    by (simp add: buyNow_commits_def upd buyNow_history_def insert_reservation_history_def)
qed

text \<open>
  Claim C6, on \<^verbatim>\<open>buyNow\<close> and \<^verbatim>\<open>handleBuyNow\<close>. The purchase of the listing's only
  unit is two requests, each committed on its own. After the first request of
  \<^verbatim>\<open>buyNow\<close> the store shows the listing sold and no sale history entry; after the
  first request of \<^verbatim>\<open>handleBuyNow\<close> it shows the entry and the listing still available.
  The last state of \<open>buyNow_commits\<close> is the store \<^verbatim>\<open>buyNow\<close> returns.
\<close>

theorem buyNow_commits_apart:
  "map (\<lambda>st. (map r_status (reservations_tbl st), map h_reservation_id (reservation_history_tbl st)))
       (buyNow_commits 5000 5001 bidder
          (formatReservationFromDB (join_seller market_store listing_row)) ''r1'' market_store)
     = [([Some Sold], []), ([Some Sold], [''r1''])]
   \<and> map (\<lambda>st. (map r_status (reservations_tbl st), map h_reservation_id (reservation_history_tbl st)))
       (handleBuyNow_commits 5000 bidder ''r1'' market_store)
     = [([Some Available], [''r1'']), ([Some Sold], [''r1''])]
   \<and> getReservationById (fetchReservations market_store) ''r1''
       = Some (formatReservationFromDB (join_seller market_store listing_row))
   \<and> map_sum id (\<lambda>r. (fst r, fst (snd r)))
         (buyNow 5000 5001 (Some bidder) ''r1'' (market_store, fetchReservations market_store))
       = Inr (True, last (buyNow_commits 5000 5001 bidder
                            (formatReservationFromDB (join_seller market_store listing_row)) ''r1'' market_store))"
  by code_simp


section \<open>Placing a bid\<close>






text \<open>
  Claim C5, on \<^verbatim>\<open>placeBid\<close> and \<^verbatim>\<open>handlePlaceBid\<close>. A bid of 150 through the
  context sets the listing's current bid to 150 and inserts a bid without status and
  without expiry: \<^verbatim>\<open>placeBid\<close> takes no days of expiry. The same bid for seven days
  through the page inserts a bid that is open and expires seven days on, and leaves the
  listing's current bid absent. A bid of 200 through the page on the listing whose
  current bid mirrors the open bid of 150 leaves the current bid at 150 under a highest
  open bid of 200.
\<close>

theorem placing_a_bid_two_ways:
  "map_sum id (\<lambda>r. (fst r, fst (snd r)))
        (placeBid 0 ''b1'' (Some bidder) ''r1'' 150 (market_store, fetchReservations market_store))
     = Inr (True,
        market_store
          \<lparr> reservations_tbl := [listing_row\<lparr>r_current_bid := Some 150\<rparr>],
            bids_tbl := [\<lparr> b_id = ''b1'', b_created_at = Iso 0, b_reservation_id = ''r1'',
                           b_user_id = ''bidder'', b_amount = 150,
                           b_expires_at = None, b_status = None \<rparr>],
            rate_limits_tbl := [place_bid_attempt ''bidder'' 0] \<rparr>)
   \<and> handlePlaceBid 0 0 ''b1'' (Some bidder) [] (Some 150) 7 ''r1'' market_store
     = (ModalClosed,
        market_store
          \<lparr> bids_tbl := [\<lparr> b_id = ''b1'', b_created_at = Iso 0, b_reservation_id = ''r1'',
                           b_user_id = ''bidder'', b_amount = 150,
                           b_expires_at = Some (Iso (7 * 86400000)), b_status = Some BidOpen \<rparr>],
            rate_limits_tbl := [place_bid_attempt ''bidder'' 0] \<rparr>)
   \<and> map r_current_bid (reservations_tbl market_store) = [None]
   \<and> map r_current_bid (reservations_tbl
         (snd (handlePlaceBid 5000 5000 ''b2'' (Some bidder) (select_open_bids mirrored_store ''r1'')
                 (Some 200) 7 ''r1'' mirrored_store))) = [Some 150]
   \<and> highest_open_bid
         (snd (handlePlaceBid 5000 5000 ''b2'' (Some bidder) (select_open_bids mirrored_store ''r1'')
                 (Some 200) 7 ''r1'' mirrored_store)) ''r1'' = Some 200"
  by code_simp

section \<open>Market statistics\<close>

text \<open>The arithmetic of the statistics block, on whatever prices the sales carry: the
  price of the first sale, the mean over the sales of the last thirty days, the maximum,
  the minimum and the count.\<close>

lemma foldl_add_sum_list: "foldl (\<lambda>sum price. sum + price) a xs = a + sum_list (xs :: rat list)"
  by (induction xs arbitrary: a) (auto simp: algebra_simps)

lemma math_max_Max: "prices \<noteq> [] \<Longrightarrow> math_max prices = Max (set prices)"
proof (cases prices)
  case Nil
  then show "prices \<noteq> [] \<Longrightarrow> ?thesis" by simp
next
  case (Cons p ps)
  have "foldl max p ps = fold max ps p"
    by (simp add: foldl_conv_fold max.commute)
  with Max.set_eq_fold [of p ps] show ?thesis
    by (simp add: math_max_def Cons)
qed

lemma math_min_Min: "prices \<noteq> [] \<Longrightarrow> math_min prices = Min (set prices)"
proof (cases prices)
  case Nil
  then show "prices \<noteq> [] \<Longrightarrow> ?thesis" by simp
next
  case (Cons p ps)
  have "foldl min p ps = fold min ps p"
    by (simp add: foldl_conv_fold min.commute)
  with Min.set_eq_fold [of p ps] show ?thesis
    by (simp add: math_min_def Cons)
qed

lemma calculate_market_stats_arithmetic:
  assumes "formattedSales \<noteq> []"
  shows "calculate_market_stats now formattedSales marketStats =
     (let recent = filter (\<lambda>sale. now - 30 * 86400000 \<le> newDate (executed_at sale)) formattedSales
      in \<lparr> stats_lastSalePrice = Some (s_price (hd formattedSales)),
           thirtyDayAvg =
             (if recent = [] then None
              else Some (sum_list (map s_price recent) / of_nat (length recent))),
           highPrice = Some (Max (set (map s_price formattedSales))),
           lowPrice = Some (Min (set (map s_price formattedSales))),
           salesCount = length formattedSales \<rparr>)"
  using assms
  by (simp add: calculate_market_stats_def Let_def hd_map math_max_Max math_min_Min
      foldl_add_sum_list)














end
